theory Spec2Isabelle
  imports Main "HOL-Library.Sublist"
begin

section \<open>pkg/exec/cli.go: launching a program under a profiler\<close>

text \<open>
  The embedding follows \<^verbatim>\<open>src/pkg/exec/cli.go\<close>. A call of \<^verbatim>\<open>Cli\<close> is a pure
  function from its arguments and from what the host answers (the spy registry, the
  operating system, the scheduler of \<^verbatim>\<open>select\<close>) to the list of calls it makes on its
  collaborators, in order, and to how it ends: it returns an error value, it panics, or
  it is still in the supervision loop when the observed behaviour of the host ends.
\<close>

subsection \<open>Go values\<close>

text \<open>An \<^verbatim>\<open>error\<close> made by \<^verbatim>\<open>errors.New\<close> or \<^verbatim>\<open>fmt.Errorf\<close> carries its message; an
  error handed back by the operating system or by a library is kept as it is.\<close>

datatype error = errorString string | osError string

text \<open>How a Go function ends when it ends: it returns, or it panics.\<close>

datatype 'a go_result = Returns 'a | Panics string

text \<open>The runtime's messages for the two panics the file can raise: reading through a
  \<^verbatim>\<open>nil\<close> pointer, and taking element 0 of an empty slice.\<close>

definition nil_dereference :: string where
  "nil_dereference = ''runtime error: invalid memory address or nil pointer dereference''"

definition index_out_of_range :: string where
  "index_out_of_range = ''runtime error: index out of range [0] with length 0''"

text \<open>\<^verbatim>\<open>time.Duration\<close> counts nanoseconds.\<close>

definition time_Second :: int where
  "time_Second = 1000000000"

subsection \<open>Commands and processes\<close>

datatype os_File = os_Stdin | os_Stdout | os_Stderr

record os_Process =
  Pid :: int

text \<open>\<^verbatim>\<open>syscall.SysProcAttr\<close>: with \<^verbatim>\<open>Setpgid\<close> the child's process group is set to
  \<^verbatim>\<open>Pgid\<close>, or to the child's own pid when \<^verbatim>\<open>Pgid\<close> is 0.\<close>

record syscall_SysProcAttr =
  Setpgid :: bool
  Pgid :: int

text \<open>\<^verbatim>\<open>exec.Cmd\<close>. A stream that is \<^verbatim>\<open>nil\<close> is the null device; a stream that is an
  \<^verbatim>\<open>*os.File\<close> is handed to the child as it is. \<^verbatim>\<open>Process\<close> is \<^verbatim>\<open>nil\<close> until
  \<^verbatim>\<open>Start\<close> has succeeded.\<close>

record exec_Cmd =
  Args :: "string list"
  Stdin :: "os_File option"
  Stdout :: "os_File option"
  Stderr :: "os_File option"
  SysProcAttr :: "syscall_SysProcAttr option"
  Process :: "os_Process option"

text \<open>\<^verbatim>\<open>exec.Command(name, arg...)\<close>: the argument vector starts with the name.\<close>

definition exec_Command :: "string \<Rightarrow> string list \<Rightarrow> exec_Cmd" where
  "exec_Command name arg =
     \<lparr>Args = name # arg, Stdin = None, Stdout = None, Stderr = None,
      SysProcAttr = None, Process = None\<rparr>"

text \<open>The process group the operating system gives a child started from a command, for
  the pid the child gets and the group of its parent.\<close>

definition child_pgid :: "exec_Cmd \<Rightarrow> int \<Rightarrow> int \<Rightarrow> int" where
  "child_pgid cmd child parent_group =
     (case SysProcAttr cmd of
        None \<Rightarrow> parent_group
      | Some attr \<Rightarrow>
          if Setpgid attr then (if Pgid attr = 0 then child else Pgid attr)
          else parent_group)"

text \<open>A row of the operating system's process table.\<close>

record proc_entry =
  entry_pid :: int
  entry_pgid :: int

text \<open>\<^verbatim>\<open>ps.Process\<close>, the answer of \<^verbatim>\<open>ps.FindProcess\<close> for a pid that is in the table.\<close>

datatype ps_Process = UnixProcess int

subsection \<open>Configuration\<close>

record config_Exec =
  SpyName :: string
  ApplicationName :: string
  DetectSubprocesses :: bool
  ServerAddress :: string
  UpstreamThreads :: int
  UpstreamRequestTimeout :: int

record config_Config =
  Exec :: config_Exec

record remote_RemoteConfig =
  UpstreamAddress :: string
  RemoteUpstreamThreads :: int
  RemoteUpstreamRequestTimeout :: int

subsection \<open>The select statement of the supervision loop\<close>

datatype select_case = recv_sigc | recv_tC

text \<open>
  What the host offers at one pass through \<^verbatim>\<open>select\<close>: whether the shutdown hook is
  blocked sending on \<^verbatim>\<open>sigc\<close>, whether the ticker has put a tick in \<^verbatim>\<open>t.C\<close>, which of
  the two the runtime's pseudo-random pick names when both can proceed, and what
  \<^verbatim>\<open>ps.FindProcess\<close> answers if it is called now.
\<close>

record select_state =
  sigc_ready :: bool
  tC_ready :: bool
  chosen :: select_case
  found :: "ps_Process option \<times> error option"

text \<open>Go's \<^verbatim>\<open>select\<close> without a default case: when one case can proceed it is taken,
  when several can proceed one of them is picked pseudo-randomly, when none can the
  statement blocks (\<open>None\<close>).\<close>

definition go_select :: "select_state \<Rightarrow> select_case option" where
  "go_select s =
     (if sigc_ready s \<and> tC_ready s then Some (chosen s)
      else if sigc_ready s then Some recv_sigc
      else if tC_ready s then Some recv_tC
      else None)"

subsection \<open>Calls on collaborators\<close>

datatype action =
    ResolveAutoName string
  | LogInfo string
  | LogError string
  | SignalIgnore_SIGCHLD
  | CmdStart exec_Cmd
  | RemoteNew remote_RemoteConfig
  | Sleep int
  | NewSession string string int int bool
  | SessionStart
  | SessionStop
  | UpstreamStop
  | AtexitRegister
  | NewTicker int
  | Recv select_case
  | FindProcess int "ps_Process option \<times> error option"
  | ProcessKill int

text \<open>\<^verbatim>\<open>os.Process.Kill\<close> sends SIGKILL to the one process whose pid the handle holds.
  The process table after the calls of a trace: only \<^verbatim>\<open>ProcessKill\<close> removes a row.\<close>

definition os_Process_Kill :: "int \<Rightarrow> proc_entry list \<Rightarrow> proc_entry list" where
  "os_Process_Kill target tbl = filter (\<lambda>e. entry_pid e \<noteq> target) tbl"

fun kill_effect :: "action \<Rightarrow> proc_entry list \<Rightarrow> proc_entry list" where
  "kill_effect (ProcessKill target) tbl = os_Process_Kill target tbl"
| "kill_effect _ tbl = tbl"

definition table_after :: "action list \<Rightarrow> proc_entry list \<Rightarrow> proc_entry list" where
  "table_after tr tbl = fold kill_effect tr tbl"

subsection \<open>waitForProcessToExit\<close>

text \<open>
  The \<^verbatim>\<open>for\<close> loop around \<^verbatim>\<open>select\<close>, run against the successive states the host
  offers. It gives the calls made and, when the loop has ended, how it ended and the
  states it did not consume; \<open>None\<close> in their place when the states run out with the
  loop still waiting in \<^verbatim>\<open>select\<close>.
\<close>

fun waitForProcessToExit_loop ::
  "exec_Cmd \<Rightarrow> select_state list \<Rightarrow> action list \<times> (unit go_result \<times> select_state list) option"
where
  "waitForProcessToExit_loop cmd [] = ([], None)"
| "waitForProcessToExit_loop cmd (s # ss) =
     (case go_select s of
        None \<Rightarrow> waitForProcessToExit_loop cmd ss
      | Some recv_sigc \<Rightarrow>
          (case Process cmd of
             None \<Rightarrow> ([Recv recv_sigc], Some (Panics nil_dereference, ss))
           | Some p \<Rightarrow> ([Recv recv_sigc, ProcessKill (Pid p)], Some (Returns (), ss)))
      | Some recv_tC \<Rightarrow>
          (case Process cmd of
             None \<Rightarrow> ([Recv recv_tC], Some (Panics nil_dereference, ss))
           | Some p \<Rightarrow>
               if fst (found s) = None \<or> snd (found s) \<noteq> None
               then ([Recv recv_tC, FindProcess (Pid p) (found s)], Some (Returns (), ss))
               else (case waitForProcessToExit_loop cmd ss of
                       (tr, ended) \<Rightarrow>
                         (Recv recv_tC # FindProcess (Pid p) (found s) # tr, ended))))"

definition waitForProcessToExit ::
  "exec_Cmd \<Rightarrow> select_state list \<Rightarrow> action list \<times> (unit go_result \<times> select_state list) option"
where
  "waitForProcessToExit cmd states =
     (case waitForProcessToExit_loop cmd states of
        (tr, ended) \<Rightarrow> (AtexitRegister # NewTicker time_Second # tr, ended))"

subsection \<open>The host\<close>

text \<open>
  What \<^verbatim>\<open>Cli\<close> reads from outside \<^verbatim>\<open>cli.go\<close>. The spy registry (package \<^verbatim>\<open>spy\<close>:
  \<^verbatim>\<open>ResolveAutoName\<close>, \<^verbatim>\<open>SupportedSpies\<close>, \<^verbatim>\<open>SupportedExecSpies\<close>) is not part of
  the file and is taken as given, as are the platform constants, the current user, the
  colour switch of the terminal library, the answer of \<^verbatim>\<open>cmd.Start\<close> (an error, or the
  pid of the child) and the states the supervision loop meets.
\<close>

record host =
  spy_ResolveAutoName :: "string \<Rightarrow> string"
  spy_SupportedSpies :: "string list"
  spy_SupportedExecSpies :: "string list"
  runtime_GOOS :: string
  runtime_GOARCH :: string
  user_Current :: "error + string"
  color_NoColor :: bool
  cmd_Start :: "error + int"
  select_states :: "select_state list"

subsection \<open>Strings\<close>

definition dquote :: string where
  "dquote = [CHR 0x22]"

definition newline :: string where
  "newline = [CHR 0x0A]"

text \<open>\<^verbatim>\<open>strings.Join\<close>.\<close>

definition strings_Join :: "string list \<Rightarrow> string \<Rightarrow> string" where
  "strings_Join elems sep =
     (case elems of [] \<Rightarrow> [] | e # es \<Rightarrow> e @ concat (map (\<lambda>x. sep @ x) es))"

text \<open>\<^verbatim>\<open>path.Base\<close>: the last element of a slash-separated path, trailing slashes
  removed first; \<^verbatim>\<open>.\<close> for the empty path and \<^verbatim>\<open>/\<close> for a path of slashes only.\<close>

definition path_Base :: "string \<Rightarrow> string" where
  "path_Base p =
     (if p = [] then ''.''
      else
        let stripped = rev (dropWhile (\<lambda>c. c = CHR ''/'') (rev p));
            last_elem = rev (takeWhile (\<lambda>c. c \<noteq> CHR ''/'') (rev stripped))
        in if last_elem = [] then ''/'' else last_elem)"

text \<open>The colour functions of the terminal library put the text between an escape
  sequence and a reset, or leave it alone when colour is off.\<close>

definition color_wrap :: "host \<Rightarrow> string \<Rightarrow> string \<Rightarrow> string" where
  "color_wrap h code s =
     (if color_NoColor h then s
      else [CHR 0x1B] @ ''['' @ code @ ''m'' @ s @ [CHR 0x1B] @ ''[0m'')"

definition color_YellowString :: "host \<Rightarrow> string \<Rightarrow> string" where
  "color_YellowString h s = color_wrap h ''33'' s"

definition color_BlueString :: "host \<Rightarrow> string \<Rightarrow> string" where
  "color_BlueString h s = color_wrap h ''34'' s"

subsection \<open>armMessage, isRoot, stringsContains, performChecks\<close>

definition armMessage :: "host \<Rightarrow> string" where
  "armMessage h =
     (if runtime_GOARCH h = ''arm64'' then ''Note that rbspy is not available on arm64 platform''
      else [])"

definition isRoot :: "host \<Rightarrow> bool" where
  "isRoot h = (case user_Current h of Inl err \<Rightarrow> False | Inr username \<Rightarrow> username = ''root'')"

fun stringsContains :: "string list \<Rightarrow> string \<Rightarrow> bool" where
  "stringsContains [] element = False"
| "stringsContains (v # arr) element = (if v = element then True else stringsContains arr element)"

definition gospy_message :: "host \<Rightarrow> string" where
  "gospy_message h =
     ''gospy can not profile other processes. See our documentation on using gospy: ''
       @ color_BlueString h ''https://pyroscope.io/docs/''"

definition not_supported_message :: "host \<Rightarrow> string \<Rightarrow> string" where
  "not_supported_message h spyName =
     ''Spy '' @ dquote @ color_BlueString h spyName @ dquote
       @ '' is not supported. Available spies are: ''
       @ strings_Join (spy_SupportedExecSpies h) '',''
       @ newline @ armMessage h"

definition macos_sudo_message :: string where
  "macos_sudo_message =
     ''on macOS you'' @ [CHR 0x27] @ ''re required to run the agent with sudo''"

definition performChecks :: "host \<Rightarrow> string \<Rightarrow> action list \<times> error option" where
  "performChecks h spyName =
     (if spyName = ''gospy'' then ([], Some (errorString (gospy_message h)))
      else
        let logged =
              (if runtime_GOOS h = ''darwin'' \<and> \<not> isRoot h then [LogError macos_sudo_message]
               else [])
        in if \<not> stringsContains (spy_SupportedSpies h) spyName
           then (logged, Some (errorString (not_supported_message h spyName)))
           else (logged, None))"

subsection \<open>Cli\<close>

definition suggestedCommand :: "string \<Rightarrow> string list \<Rightarrow> string" where
  "suggestedCommand first_spy args =
     ''pyroscope exec -spy-name '' @ first_spy @ '' '' @ strings_Join args '' ''"

definition no_auto_match_message :: "host \<Rightarrow> string \<Rightarrow> string \<Rightarrow> string list \<Rightarrow> string" where
  "no_auto_match_message h baseName suggested supportedSpies =
     ''could not automatically find a spy for program '' @ dquote @ baseName @ dquote
       @ ''. Pass spy name via '' @ color_YellowString h ''-spy-name''
       @ '' argument, for example: '' @ newline @ ''  '' @ color_YellowString h suggested
       @ newline @ newline @ ''Available spies are: '' @ strings_Join supportedSpies '',''
       @ newline @ armMessage h @ newline
       @ ''If you believe this is a mistake, please submit an issue at ''
       @ color_BlueString h ''https://github.com/pyroscope-io/pyroscope/issues''"

definition no_logging_hint :: "host \<Rightarrow> string" where
  "no_logging_hint h =
     ''to disable logging from pyroscope, pass '' @ color_YellowString h ''-no-logging''
       @ '' argument to pyroscope exec''"

text \<open>Deferred calls run last registered first when the function ends.\<close>

definition run_deferred :: "action list \<Rightarrow> action list" where
  "run_deferred registered = rev registered"

text \<open>The command \<^verbatim>\<open>Cli\<close> builds before it starts it (lines 58 to 63).\<close>

definition Cli_command :: "string list \<Rightarrow> exec_Cmd" where
  "Cli_command args =
     (exec_Command (args ! 0) (drop 1 args))
       \<lparr>Stderr := Some os_Stderr, Stdout := Some os_Stdout, Stdin := Some os_Stdin,
        SysProcAttr := Some \<lparr>Setpgid = True, Pgid = 0\<rparr>\<rparr>"

text \<open>
  The body of \<^verbatim>\<open>Cli\<close> from the log line on (lines 50 to 84), once the spy name is
  settled: the checks, the spawn, the upstream client, the grace period, the session,
  the supervision loop and the deferred stops. The result is the calls made and how the
  function ended, \<open>None\<close> while it is still in the supervision loop.
\<close>

definition Cli_with_spy ::
  "config_Config \<Rightarrow> host \<Rightarrow> string list \<Rightarrow> string \<Rightarrow> action list \<times> error option go_result option"
where
  "Cli_with_spy cfg h args spyName =
     (let logged = [LogInfo (no_logging_hint h)] in
      (case performChecks h spyName of
         (checked, Some err) \<Rightarrow> (logged @ checked, Some (Returns (Some err)))
       | (checked, None) \<Rightarrow>
           (let cmd = Cli_command args;
                spawned = logged @ checked @ [SignalIgnore_SIGCHLD, CmdStart cmd]
            in (case cmd_Start h of
                  Inl err \<Rightarrow> (spawned, Some (Returns (Some err)))
                | Inr child \<Rightarrow>
                    (let started = cmd\<lparr>Process := Some \<lparr>Pid = child\<rparr>\<rparr>;
                         attached =
                           [RemoteNew \<lparr>UpstreamAddress = ServerAddress (Exec cfg),
                                       RemoteUpstreamThreads = UpstreamThreads (Exec cfg),
                                       RemoteUpstreamRequestTimeout = UpstreamRequestTimeout (Exec cfg)\<rparr>,
                            Sleep (5 * time_Second),
                            NewSession (ApplicationName (Exec cfg)) spyName 100 child
                              (DetectSubprocesses (Exec cfg)),
                            SessionStart];
                         deferred = [UpstreamStop, SessionStop]
                     in (case waitForProcessToExit started (select_states h) of
                           (watched, None) \<Rightarrow> (spawned @ attached @ watched, None)
                         | (watched, Some (ended, unread)) \<Rightarrow>
                             (spawned @ attached @ watched @ run_deferred deferred,
                              Some (case ended of
                                      Returns u \<Rightarrow> Returns None
                                    | Panics msg \<Rightarrow> Panics msg))))))))"

text \<open>\<^verbatim>\<open>Cli\<close> (lines 26 to 48, then the rest). The configuration is a pointer; it is
  first read after the check of the argument vector.\<close>

definition Cli ::
  "config_Config option \<Rightarrow> host \<Rightarrow> string list \<Rightarrow> action list \<times> error option go_result option"
where
  "Cli cfg_ptr h args =
     (if length args = 0 then ([], Some (Returns (Some (errorString ''no arguments passed''))))
      else
        case cfg_ptr of
          None \<Rightarrow> ([], Some (Panics nil_dereference))
        | Some cfg \<Rightarrow>
            if SpyName (Exec cfg) = ''auto'' then
              let baseName = path_Base (args ! 0);
                  spyName = spy_ResolveAutoName h baseName
              in if spyName = [] then
                   (case spy_SupportedExecSpies h of
                      [] \<Rightarrow> ([ResolveAutoName baseName], Some (Panics index_out_of_range))
                    | first_spy # others \<Rightarrow>
                        ([ResolveAutoName baseName],
                         Some (Returns (Some (errorString
                           (no_auto_match_message h baseName
                              (suggestedCommand first_spy args)
                              (spy_SupportedExecSpies h)))))))
                 else
                   (case Cli_with_spy cfg h args spyName of
                      (tr, ended) \<Rightarrow> (ResolveAutoName baseName # tr, ended))
            else Cli_with_spy cfg h args (SpyName (Exec cfg)))"

subsection \<open>Vocabulary of the specification\<close>

text \<open>
  The specification speaks of termination events. In the code they are the two ways a
  pass through \<^verbatim>\<open>select\<close> ends the loop: the shutdown notification is received, or the
  tick is received and the liveness query finds no process or fails.
\<close>

definition shutdown_received :: "select_state \<Rightarrow> bool" where
  "shutdown_received s = (go_select s = Some recv_sigc)"

definition observed_dead :: "select_state \<Rightarrow> bool" where
  "observed_dead s =
     (go_select s = Some recv_tC \<and> (fst (found s) = None \<or> snd (found s) \<noteq> None))"

definition terminal :: "select_state \<Rightarrow> bool" where
  "terminal s = (shutdown_received s \<or> observed_dead s)"

text \<open>The same two events, read off the calls of a trace.\<close>

fun termination_event :: "action \<Rightarrow> bool" where
  "termination_event (Recv recv_sigc) = True"
| "termination_event (FindProcess target (p, err)) = (p = None \<or> err \<noteq> None)"
| "termination_event _ = False"

fun is_poll :: "action \<Rightarrow> bool" where
  "is_poll (FindProcess target r) = True"
| "is_poll _ = False"

fun is_kill :: "action \<Rightarrow> bool" where
  "is_kill (ProcessKill target) = True"
| "is_kill _ = False"

text \<open>The calls of the passes that do not end the loop: a tick that finds the process
  alive is one receive and one query; a pass with nothing ready is no call.\<close>

definition polls :: "int \<Rightarrow> select_state list \<Rightarrow> action list" where
  "polls target states =
     concat (map (\<lambda>s. if go_select s = Some recv_tC
                       then [Recv recv_tC, FindProcess target (found s)] else []) states)"

text \<open>The calls of the pass that ends the loop.\<close>

definition last_pass :: "int \<Rightarrow> select_state \<Rightarrow> action list" where
  "last_pass target s =
     (if go_select s = Some recv_sigc then [Recv recv_sigc, ProcessKill target]
      else [Recv recv_tC, FindProcess target (found s)])"

text \<open>The calls made inside \<^verbatim>\<open>waitForProcessToExit\<close>.\<close>

fun supervision_call :: "action \<Rightarrow> bool" where
  "supervision_call AtexitRegister = True"
| "supervision_call (NewTicker d) = True"
| "supervision_call (Recv c) = True"
| "supervision_call (FindProcess target r) = True"
| "supervision_call (ProcessKill target) = True"
| "supervision_call _ = False"

fun session_created :: "action \<Rightarrow> bool" where
  "session_created (NewSession app spy rate target detect) = True"
| "session_created _ = False"

fun is_spawn :: "action \<Rightarrow> bool" where
  "is_spawn (CmdStart cmd) = True"
| "is_spawn _ = False"

subsection \<open>Worked inputs\<close>

text \<open>A Linux host whose registry knows two spies that can attach to another process
  and maps the interpreters' names to them, for an answer of \<^verbatim>\<open>cmd.Start\<close> and the
  states the supervision loop meets.\<close>

definition linux_host :: "error + int \<Rightarrow> select_state list \<Rightarrow> host" where
  "linux_host start states =
     \<lparr>spy_ResolveAutoName =
        (\<lambda>b. if b = ''python'' then ''pyspy'' else if b = ''ruby'' then ''rbspy'' else []),
      spy_SupportedSpies = [''gospy'', ''pyspy'', ''rbspy''],
      spy_SupportedExecSpies = [''pyspy'', ''rbspy''],
      runtime_GOOS = ''linux'',
      runtime_GOARCH = ''amd64'',
      user_Current = Inr ''root'',
      color_NoColor = True,
      cmd_Start = start,
      select_states = states\<rparr>"

definition exec_config :: "string \<Rightarrow> config_Config" where
  "exec_config spy =
     \<lparr>Exec = \<lparr>SpyName = spy, ApplicationName = ''app'', DetectSubprocesses = False,
              ServerAddress = ''http://localhost:4040'', UpstreamThreads = 4,
              UpstreamRequestTimeout = 10 * time_Second\<rparr>\<rparr>"

text \<open>The same host with a registry that holds gospy alone: no spy that can attach to
  another process is listed.\<close>

definition gospy_only_host :: host where
  "gospy_only_host =
     \<lparr>spy_ResolveAutoName = (\<lambda>b. []),
      spy_SupportedSpies = [''gospy''],
      spy_SupportedExecSpies = [],
      runtime_GOOS = ''linux'',
      runtime_GOARCH = ''amd64'',
      user_Current = Inr ''root'',
      color_NoColor = True,
      cmd_Start = Inr 100,
      select_states = []\<rparr>"

text \<open>The target dies by itself and the second tick finds it gone.\<close>

definition target_dies :: "select_state list" where
  "target_dies =
     [\<lparr>sigc_ready = False, tC_ready = True, chosen = recv_sigc, found = (Some (UnixProcess 100), None)\<rparr>,
      \<lparr>sigc_ready = False, tC_ready = True, chosen = recv_sigc, found = (None, None)\<rparr>]"

text \<open>The shutdown notification arrives after one tick.\<close>

definition shutdown_requested :: "select_state list" where
  "shutdown_requested =
     [\<lparr>sigc_ready = False, tC_ready = True, chosen = recv_sigc, found = (Some (UnixProcess 100), None)\<rparr>,
      \<lparr>sigc_ready = True, tC_ready = False, chosen = recv_sigc, found = (Some (UnixProcess 100), None)\<rparr>]"

section \<open>The supervision loop\<close>

lemma polls_Nil: "polls t [] = []"
  by (simp add: polls_def)

lemma polls_Cons:
  "polls t (s # ss) =
     (if go_select s = Some recv_tC then [Recv recv_tC, FindProcess t (found s)] else [])
       @ polls t ss"
  by (simp add: polls_def)

lemma loop_waiting_iff:
  "Process cmd = Some p \<Longrightarrow> (snd (waitForProcessToExit_loop cmd ss) = None) = (\<forall>s\<in>set ss. \<not> terminal s)"
  by (induction ss) (auto simp: terminal_def shutdown_received_def observed_dead_def split: option.splits select_case.splits prod.splits)

lemma loop_skip:
  "Process cmd = Some p \<Longrightarrow> \<forall>u\<in>set used. \<not> terminal u \<Longrightarrow>
   waitForProcessToExit_loop cmd (used @ ss) =
     (polls (Pid p) used @ fst (waitForProcessToExit_loop cmd ss), snd (waitForProcessToExit_loop cmd ss))"
proof (induction used)
  case Nil
  show ?case by (simp add: polls_Nil)
next
  case (Cons u used)
  then show ?case
    by (auto simp: polls_Cons terminal_def shutdown_received_def observed_dead_def
        split: option.splits select_case.splits)
qed

lemma loop_terminal_head:
  "Process cmd = Some p \<Longrightarrow> terminal s \<Longrightarrow>
   waitForProcessToExit_loop cmd (s # ss) = (last_pass (Pid p) s, Some (Returns (), ss))"
  by (auto simp: last_pass_def terminal_def shutdown_received_def observed_dead_def split: option.splits select_case.splits)

lemma loop_ends:
  "Process cmd = Some p \<Longrightarrow> \<forall>u\<in>set used. \<not> terminal u \<Longrightarrow> terminal s \<Longrightarrow>
   waitForProcessToExit_loop cmd (used @ s # rest) = (polls (Pid p) used @ last_pass (Pid p) s, Some (Returns (), rest))"
  by (simp add: loop_skip loop_terminal_head del: waitForProcessToExit_loop.simps)

lemma termination_event_FindProcess:
  "termination_event (FindProcess t r) = (fst r = None \<or> snd r \<noteq> None)"
  by (cases r) simp

lemma polls_no_event:
  "\<forall>u\<in>set used. \<not> terminal u \<Longrightarrow> filter termination_event (polls t used) = []"
  by (induction used) (auto simp: polls_Nil polls_Cons terminal_def observed_dead_def termination_event_FindProcess)

lemma polls_no_kill: "filter is_kill (polls t used) = []"
  by (induction used) (auto simp: polls_Nil polls_Cons)

lemma last_pass_one_event:
  "terminal s \<Longrightarrow> length (filter termination_event (last_pass t s)) = 1"
  by (auto simp: last_pass_def terminal_def shutdown_received_def observed_dead_def termination_event_FindProcess)

lemma wait_unfold:
  "waitForProcessToExit cmd states =
     (AtexitRegister # NewTicker time_Second # fst (waitForProcessToExit_loop cmd states),
      snd (waitForProcessToExit_loop cmd states))"
  by (simp add: waitForProcessToExit_def split_def)

lemma loop_all_waiting:
  assumes "Process cmd = Some p" "\<forall>u\<in>set states. \<not> terminal u"
  shows "waitForProcessToExit_loop cmd states = (polls (Pid p) states, None)"
  using loop_skip [OF assms, of "[]"] by simp

text \<open>
  C1. The supervision loop produces exactly one termination event per run. For a started
  command: the loop has ended exactly when some state the host offered is terminal (the
  shutdown notification is received, or a tick is received and the query finds no process
  or fails); when it has ended it has returned, the trace holds exactly one termination
  event, the states before the ending one were all not terminal (so it ended at the first),
  and the states after it are handed back unread; while it has not ended the trace holds
  no termination event.
\<close>

theorem waitForProcessToExit_one_termination_event:
  assumes started: "Process cmd = Some p"
  shows "((snd (waitForProcessToExit cmd states) \<noteq> None) = (\<exists>s\<in>set states. terminal s)) \<and>
         (\<forall>tr r rest. waitForProcessToExit cmd states = (tr, Some (r, rest)) \<longrightarrow>
            r = Returns () \<and>
            length (filter termination_event tr) = 1 \<and>
            (\<exists>used s. states = used @ s # rest \<and> (\<forall>u\<in>set used. \<not> terminal u) \<and> terminal s \<and>
               tr = AtexitRegister # NewTicker time_Second # polls (Pid p) used @ last_pass (Pid p) s)) \<and>
         (snd (waitForProcessToExit cmd states) = None \<longrightarrow>
            filter termination_event (fst (waitForProcessToExit cmd states)) = [])"
proof (intro conjI allI impI)
  show "(snd (waitForProcessToExit cmd states) \<noteq> None) = (\<exists>s\<in>set states. terminal s)"
    using loop_waiting_iff [OF started, of states] by (simp add: wait_unfold)
next
  assume "snd (waitForProcessToExit cmd states) = None"
  then have "\<forall>u\<in>set states. \<not> terminal u"
    using loop_waiting_iff [OF started, of states] by (simp add: wait_unfold)
  then show "filter termination_event (fst (waitForProcessToExit cmd states)) = []"
    by (simp add: wait_unfold loop_all_waiting [OF started] polls_no_event)
next
  fix tr r rest
  assume res: "waitForProcessToExit cmd states = (tr, Some (r, rest))"
  then have "snd (waitForProcessToExit_loop cmd states) \<noteq> None"
    by (simp add: wait_unfold)
  then have "\<exists>s\<in>set states. terminal s"
    using loop_waiting_iff [OF started, of states] by simp
  then obtain used s rest' where
    split: "states = used @ s # rest'" and s: "terminal s" and used: "\<forall>u\<in>set used. \<not> terminal u"
    by (auto dest!: split_list_first_prop)
  have loop: "waitForProcessToExit_loop cmd states =
      (polls (Pid p) used @ last_pass (Pid p) s, Some (Returns (), rest'))"
    unfolding split by (rule loop_ends [OF started used s])
  from res loop have tr: "tr = AtexitRegister # NewTicker time_Second # polls (Pid p) used @ last_pass (Pid p) s"
    and r: "r = Returns ()" and rest: "rest = rest'"
    by (simp_all add: wait_unfold)
  show "r = Returns ()" by (rule r)
  show "length (filter termination_event tr) = 1"
    by (simp add: tr polls_no_event [OF used] last_pass_one_event [OF s])
  show "\<exists>used s. states = used @ s # rest \<and> (\<forall>u\<in>set used. \<not> terminal u) \<and> terminal s \<and>
      tr = AtexitRegister # NewTicker time_Second # polls (Pid p) used @ last_pass (Pid p) s"
    using split s used tr rest by blast
qed

theorem waitForProcessToExit_one_termination_event_witness:
  "waitForProcessToExit
     ((exec_Command ''sleep'' [''60''])\<lparr>Process := Some \<lparr>Pid = 100\<rparr>\<rparr>)
     [\<lparr>sigc_ready = False, tC_ready = False, chosen = recv_sigc, found = (Some (UnixProcess 100), None)\<rparr>,
      \<lparr>sigc_ready = False, tC_ready = True, chosen = recv_sigc, found = (Some (UnixProcess 100), None)\<rparr>,
      \<lparr>sigc_ready = True, tC_ready = False, chosen = recv_tC, found = (Some (UnixProcess 100), None)\<rparr>,
      \<lparr>sigc_ready = False, tC_ready = True, chosen = recv_tC, found = (None, None)\<rparr>]
   = ([AtexitRegister, NewTicker time_Second, Recv recv_tC,
       FindProcess 100 (Some (UnixProcess 100), None), Recv recv_sigc, ProcessKill 100],
      Some (Returns (),
        [\<lparr>sigc_ready = False, tC_ready = True, chosen = recv_tC, found = (None, None)\<rparr>]))
   \<and> length (filter termination_event
        [AtexitRegister, NewTicker time_Second, Recv recv_tC,
         FindProcess 100 (Some (UnixProcess 100), None), Recv recv_sigc, ProcessKill 100]) = 1"
proof -
  have started: "Process ((exec_Command ''sleep'' [''60''])\<lparr>Process := Some \<lparr>Pid = 100\<rparr>\<rparr>) = Some \<lparr>Pid = 100\<rparr>"
    by simp
  have run: "waitForProcessToExit
     ((exec_Command ''sleep'' [''60''])\<lparr>Process := Some \<lparr>Pid = 100\<rparr>\<rparr>)
     [\<lparr>sigc_ready = False, tC_ready = False, chosen = recv_sigc, found = (Some (UnixProcess 100), None)\<rparr>,
      \<lparr>sigc_ready = False, tC_ready = True, chosen = recv_sigc, found = (Some (UnixProcess 100), None)\<rparr>,
      \<lparr>sigc_ready = True, tC_ready = False, chosen = recv_tC, found = (Some (UnixProcess 100), None)\<rparr>,
      \<lparr>sigc_ready = False, tC_ready = True, chosen = recv_tC, found = (None, None)\<rparr>]
   = ([AtexitRegister, NewTicker time_Second, Recv recv_tC,
       FindProcess 100 (Some (UnixProcess 100), None), Recv recv_sigc, ProcessKill 100],
      Some (Returns (),
        [\<lparr>sigc_ready = False, tC_ready = True, chosen = recv_tC, found = (None, None)\<rparr>]))"
    by (simp add: waitForProcessToExit_def go_select_def)
  from waitForProcessToExit_one_termination_event [OF started] run
  have "length (filter termination_event
        [AtexitRegister, NewTicker time_Second, Recv recv_tC,
         FindProcess 100 (Some (UnixProcess 100), None), Recv recv_sigc, ProcessKill 100]) = 1"
    by blast
  with run show ?thesis by (rule conjI)
qed

lemma table_after_polls: "fold kill_effect (polls t used) tbl = tbl"
  by (induction used) (auto simp: polls_Nil polls_Cons)

lemma polls_not_sigc: "a \<in> set (polls t used) \<Longrightarrow> a \<noteq> Recv recv_sigc"
  by (induction used) (auto simp: polls_Nil polls_Cons split: if_splits)

lemma wait_ends:
  assumes "Process cmd = Some p" "\<forall>u\<in>set used. \<not> terminal u" "terminal s"
  shows "waitForProcessToExit cmd (used @ s # rest) =
     (AtexitRegister # NewTicker time_Second # polls (Pid p) used @ last_pass (Pid p) s,
      Some (Returns (), rest))"
  by (simp add: wait_unfold loop_ends [OF assms])

text \<open>
  C2, as amended. When the shutdown notification is received before any pass has ended
  the loop, the supervisor calls \<^verbatim>\<open>Kill\<close> on the handle of the target process, which
  removes from the process table the one process with the target's pid and no other
  member of its group, and returns: the receive and the kill are the last calls of the
  trace, no liveness query follows them, and the later states are left unread.
\<close>

theorem shutdown_first_kills_target_process_only:
  assumes started: "Process cmd = Some p"
    and before: "\<forall>u\<in>set used. \<not> terminal u"
    and shutdown: "shutdown_received s"
  shows "waitForProcessToExit cmd (used @ s # rest) =
           (AtexitRegister # NewTicker time_Second # polls (Pid p) used
              @ [Recv recv_sigc, ProcessKill (Pid p)],
            Some (Returns (), rest)) \<and>
         dropWhile (\<lambda>a. a \<noteq> Recv recv_sigc) (fst (waitForProcessToExit cmd (used @ s # rest)))
           = [Recv recv_sigc, ProcessKill (Pid p)] \<and>
         table_after (fst (waitForProcessToExit cmd (used @ s # rest))) tbl
           = filter (\<lambda>e. entry_pid e \<noteq> Pid p) tbl"
proof -
  have s: "terminal s" using shutdown by (simp add: terminal_def)
  have lp: "last_pass (Pid p) s = [Recv recv_sigc, ProcessKill (Pid p)]"
    using shutdown by (simp add: last_pass_def shutdown_received_def)
  have run: "waitForProcessToExit cmd (used @ s # rest) =
           (AtexitRegister # NewTicker time_Second # polls (Pid p) used
              @ [Recv recv_sigc, ProcessKill (Pid p)],
            Some (Returns (), rest))"
    using wait_ends [OF started before s, of rest] by (simp add: lp)
  have skip: "dropWhile (\<lambda>a. a \<noteq> Recv recv_sigc) (polls (Pid p) used @ [Recv recv_sigc, ProcessKill (Pid p)])
      = dropWhile (\<lambda>a. a \<noteq> Recv recv_sigc) [Recv recv_sigc, ProcessKill (Pid p)]"
    by (rule dropWhile_append2) (rule polls_not_sigc)
  have tbl: "table_after (AtexitRegister # NewTicker time_Second # polls (Pid p) used
              @ [Recv recv_sigc, ProcessKill (Pid p)]) tbl = filter (\<lambda>e. entry_pid e \<noteq> Pid p) tbl"
    by (simp add: table_after_def table_after_polls os_Process_Kill_def)
  show ?thesis
    by (simp add: run skip tbl)
qed

theorem shutdown_first_kills_target_process_only_witness:
  "waitForProcessToExit
     ((exec_Command ''sleep'' [''60''])\<lparr>Process := Some \<lparr>Pid = 100\<rparr>\<rparr>)
     [\<lparr>sigc_ready = False, tC_ready = True, chosen = recv_sigc, found = (Some (UnixProcess 100), None)\<rparr>,
      \<lparr>sigc_ready = True, tC_ready = False, chosen = recv_tC, found = (Some (UnixProcess 100), None)\<rparr>,
      \<lparr>sigc_ready = False, tC_ready = True, chosen = recv_tC, found = (None, None)\<rparr>]
   = ([AtexitRegister, NewTicker time_Second, Recv recv_tC,
       FindProcess 100 (Some (UnixProcess 100), None), Recv recv_sigc, ProcessKill 100],
      Some (Returns (),
        [\<lparr>sigc_ready = False, tC_ready = True, chosen = recv_tC, found = (None, None)\<rparr>]))"
proof -
  have started: "Process ((exec_Command ''sleep'' [''60''])\<lparr>Process := Some \<lparr>Pid = 100\<rparr>\<rparr>) = Some \<lparr>Pid = 100\<rparr>"
    by simp
  have before: "\<forall>u\<in>set [\<lparr>sigc_ready = False, tC_ready = True, chosen = recv_sigc, found = (Some (UnixProcess 100), None)\<rparr>]. \<not> terminal u"
    by (simp add: terminal_def shutdown_received_def observed_dead_def go_select_def)
  have shutdown: "shutdown_received \<lparr>sigc_ready = True, tC_ready = False, chosen = recv_tC, found = (Some (UnixProcess 100), None)\<rparr>"
    by (simp add: shutdown_received_def go_select_def)
  from shutdown_first_kills_target_process_only [OF started before shutdown,
      of "[\<lparr>sigc_ready = False, tC_ready = True, chosen = recv_tC, found = (None, None)\<rparr>]"]
  show ?thesis by (simp add: polls_def go_select_def)
qed

text \<open>
  C2 as stated fails: the target (pid 100) leads a group that also holds process 101;
  the shutdown notification arrives first; after the supervisor's kill process 101 of
  the target's group is still in the process table.
\<close>

theorem shutdown_kills_whole_group_counterexample:
  "waitForProcessToExit
     ((exec_Command ''sh'' [''-c'', ''sleep 60 & wait''])\<lparr>Process := Some \<lparr>Pid = 100\<rparr>\<rparr>)
     [\<lparr>sigc_ready = True, tC_ready = False, chosen = recv_sigc, found = (Some (UnixProcess 100), None)\<rparr>]
   = ([AtexitRegister, NewTicker time_Second, Recv recv_sigc, ProcessKill 100], Some (Returns (), []))
   \<and> table_after [AtexitRegister, NewTicker time_Second, Recv recv_sigc, ProcessKill 100]
        [\<lparr>entry_pid = 100, entry_pgid = 100\<rparr>, \<lparr>entry_pid = 101, entry_pgid = 100\<rparr>]
      = [\<lparr>entry_pid = 101, entry_pgid = 100\<rparr>]"
  by (simp add: waitForProcessToExit_def go_select_def table_after_def os_Process_Kill_def)

text \<open>
  C3. On a tick where the process-table query finds no process or returns an error, the
  supervisor returns: the query is the last call of the trace (it is not repeated), the
  trace holds no kill, the process table is as it was and the later states are unread.
\<close>

theorem dead_or_failed_query_ends_without_kill:
  assumes started: "Process cmd = Some p"
    and before: "\<forall>u\<in>set used. \<not> terminal u"
    and tick: "go_select s = Some recv_tC"
    and gone: "fst (found s) = None \<or> snd (found s) \<noteq> None"
  shows "waitForProcessToExit cmd (used @ s # rest) =
           (AtexitRegister # NewTicker time_Second # polls (Pid p) used
              @ [Recv recv_tC, FindProcess (Pid p) (found s)],
            Some (Returns (), rest)) \<and>
         filter is_kill (fst (waitForProcessToExit cmd (used @ s # rest))) = [] \<and>
         table_after (fst (waitForProcessToExit cmd (used @ s # rest))) tbl = tbl"
proof -
  have s: "terminal s" using tick gone by (simp add: terminal_def observed_dead_def)
  have lp: "last_pass (Pid p) s = [Recv recv_tC, FindProcess (Pid p) (found s)]"
    using tick by (simp add: last_pass_def)
  have run: "waitForProcessToExit cmd (used @ s # rest) =
           (AtexitRegister # NewTicker time_Second # polls (Pid p) used
              @ [Recv recv_tC, FindProcess (Pid p) (found s)],
            Some (Returns (), rest))"
    using wait_ends [OF started before s, of rest] by (simp add: lp)
  show ?thesis
    by (simp add: run polls_no_kill table_after_def table_after_polls)
qed

theorem dead_or_failed_query_ends_without_kill_witness:
  "waitForProcessToExit
     ((exec_Command ''sleep'' [''60''])\<lparr>Process := Some \<lparr>Pid = 100\<rparr>\<rparr>)
     [\<lparr>sigc_ready = False, tC_ready = True, chosen = recv_sigc, found = (Some (UnixProcess 100), None)\<rparr>,
      \<lparr>sigc_ready = False, tC_ready = True, chosen = recv_sigc, found = (None, Some (osError ''stat /proc/100: permission denied''))\<rparr>,
      \<lparr>sigc_ready = True, tC_ready = False, chosen = recv_tC, found = (None, None)\<rparr>]
   = ([AtexitRegister, NewTicker time_Second, Recv recv_tC,
       FindProcess 100 (Some (UnixProcess 100), None), Recv recv_tC,
       FindProcess 100 (None, Some (osError ''stat /proc/100: permission denied''))],
      Some (Returns (),
        [\<lparr>sigc_ready = True, tC_ready = False, chosen = recv_tC, found = (None, None)\<rparr>]))"
proof -
  have started: "Process ((exec_Command ''sleep'' [''60''])\<lparr>Process := Some \<lparr>Pid = 100\<rparr>\<rparr>) = Some \<lparr>Pid = 100\<rparr>"
    by simp
  have before: "\<forall>u\<in>set [\<lparr>sigc_ready = False, tC_ready = True, chosen = recv_sigc, found = (Some (UnixProcess 100), None)\<rparr>]. \<not> terminal u"
    by (simp add: terminal_def shutdown_received_def observed_dead_def go_select_def)
  have tick: "go_select \<lparr>sigc_ready = False, tC_ready = True, chosen = recv_sigc, found = (None, Some (osError ''stat /proc/100: permission denied''))\<rparr> = Some recv_tC"
    by (simp add: go_select_def)
  have gone: "fst (found \<lparr>sigc_ready = False, tC_ready = True, chosen = recv_sigc, found = (None, Some (osError ''stat /proc/100: permission denied''))\<rparr>) = None
     \<or> snd (found \<lparr>sigc_ready = False, tC_ready = True, chosen = recv_sigc, found = (None, Some (osError ''stat /proc/100: permission denied''))\<rparr>) \<noteq> None"
    by simp
  from dead_or_failed_query_ends_without_kill [OF started before tick gone,
      of "[\<lparr>sigc_ready = True, tC_ready = False, chosen = recv_tC, found = (None, None)\<rparr>]"]
  show ?thesis by (simp add: polls_def go_select_def)
qed

text \<open>
  C4, as amended. When the shutdown notification and a tick are both ready, no priority
  is in force: \<^verbatim>\<open>select\<close> takes the case the runtime's pick names. The step is the
  shutdown and kill step when the pick is the notification, and the liveness-poll step
  when the pick is the tick.
\<close>

theorem both_ready_takes_the_chosen_case:
  assumes started: "Process cmd = Some p"
    and both: "sigc_ready s \<and> tC_ready s"
  shows "go_select s = Some (chosen s) \<and>
         waitForProcessToExit_loop cmd (s # ss) =
           (case chosen s of
              recv_sigc \<Rightarrow> ([Recv recv_sigc, ProcessKill (Pid p)], Some (Returns (), ss))
            | recv_tC \<Rightarrow>
                if fst (found s) = None \<or> snd (found s) \<noteq> None
                then ([Recv recv_tC, FindProcess (Pid p) (found s)], Some (Returns (), ss))
                else (Recv recv_tC # FindProcess (Pid p) (found s) # fst (waitForProcessToExit_loop cmd ss),
                      snd (waitForProcessToExit_loop cmd ss)))"
  using started both by (simp add: go_select_def split_def split: select_case.splits)

theorem both_ready_takes_the_chosen_case_witness:
  "waitForProcessToExit_loop
     ((exec_Command ''sleep'' [''60''])\<lparr>Process := Some \<lparr>Pid = 100\<rparr>\<rparr>)
     [\<lparr>sigc_ready = True, tC_ready = True, chosen = recv_sigc, found = (Some (UnixProcess 100), None)\<rparr>]
   = ([Recv recv_sigc, ProcessKill 100], Some (Returns (), []))
   \<and> waitForProcessToExit_loop
     ((exec_Command ''sleep'' [''60''])\<lparr>Process := Some \<lparr>Pid = 100\<rparr>\<rparr>)
     [\<lparr>sigc_ready = True, tC_ready = True, chosen = recv_tC, found = (Some (UnixProcess 100), None)\<rparr>]
   = ([Recv recv_tC, FindProcess 100 (Some (UnixProcess 100), None)], None)"
proof -
  have started: "Process ((exec_Command ''sleep'' [''60''])\<lparr>Process := Some \<lparr>Pid = 100\<rparr>\<rparr>) = Some \<lparr>Pid = 100\<rparr>"
    by simp
  have b1: "sigc_ready \<lparr>sigc_ready = True, tC_ready = True, chosen = recv_sigc, found = (Some (UnixProcess 100), None)\<rparr>
      \<and> tC_ready \<lparr>sigc_ready = True, tC_ready = True, chosen = recv_sigc, found = (Some (UnixProcess 100), None)\<rparr>"
    by simp
  have b2: "sigc_ready \<lparr>sigc_ready = True, tC_ready = True, chosen = recv_tC, found = (Some (UnixProcess 100), None)\<rparr>
      \<and> tC_ready \<lparr>sigc_ready = True, tC_ready = True, chosen = recv_tC, found = (Some (UnixProcess 100), None)\<rparr>"
    by simp
  from both_ready_takes_the_chosen_case [OF started b1, of "[]"]
    both_ready_takes_the_chosen_case [OF started b2, of "[]"]
  show ?thesis by simp
qed

text \<open>
  C4 as stated fails: in a state where both are ready and the runtime picks the tick,
  the step performed is the liveness poll; here it finds no process and the loop returns
  without the shutdown step.
\<close>

theorem both_ready_shutdown_first_counterexample:
  "sigc_ready \<lparr>sigc_ready = True, tC_ready = True, chosen = recv_tC, found = (None, None)\<rparr>
   \<and> tC_ready \<lparr>sigc_ready = True, tC_ready = True, chosen = recv_tC, found = (None, None)\<rparr>
   \<and> waitForProcessToExit
       ((exec_Command ''sleep'' [''60''])\<lparr>Process := Some \<lparr>Pid = 100\<rparr>\<rparr>)
       [\<lparr>sigc_ready = True, tC_ready = True, chosen = recv_tC, found = (None, None)\<rparr>]
     = ([AtexitRegister, NewTicker time_Second, Recv recv_tC, FindProcess 100 (None, None)],
        Some (Returns (), []))"
  by (simp add: waitForProcessToExit_def go_select_def)

section \<open>Cli\<close>

lemma stringsContains_set: "stringsContains arr element = (element \<in> set arr)"
  by (induction arr) auto

lemma performChecks_fails:
  "spyName = ''gospy'' \<or> spyName \<notin> set (spy_SupportedSpies h) \<Longrightarrow>
   snd (performChecks h spyName) =
     Some (errorString (if spyName = ''gospy'' then gospy_message h
                        else not_supported_message h spyName))"
  by (auto simp: performChecks_def Let_def stringsContains_set)

lemma performChecks_logs: "a \<in> set (fst (performChecks h spyName)) \<Longrightarrow> a = LogError macos_sudo_message"
  by (auto simp: performChecks_def Let_def split: if_splits)

lemma Cli_with_spy_fails:
  assumes "snd (performChecks h spyName) = Some err"
  shows "Cli_with_spy cfg h args spyName =
           (LogInfo (no_logging_hint h) # fst (performChecks h spyName), Some (Returns (Some err)))"
  using assms by (cases "performChecks h spyName") (simp add: Cli_with_spy_def)

text \<open>
  C5. With an empty argument vector \<^verbatim>\<open>Cli\<close> returns the error "no arguments passed" and
  makes no call at all: the trace is empty, so no spy is resolved, no process is spawned,
  no upstream client and no session are made. This holds for every configuration
  pointer, \<^verbatim>\<open>nil\<close> included, and every host.
\<close>

theorem Cli_no_arguments:
  "Cli cfg_ptr h [] = ([], Some (Returns (Some (errorString ''no arguments passed''))))"
  by (simp add: Cli_def)

theorem Cli_no_arguments_witness:
  "Cli (Some (exec_config ''auto'')) (linux_host (Inr 100) target_dies) []
     = ([], Some (Returns (Some (errorString ''no arguments passed''))))"
  by (rule Cli_no_arguments)

text \<open>
  C6. For an explicitly named spy (not "auto") that is "gospy" or is not in the
  supported-spy list, \<^verbatim>\<open>Cli\<close> returns an error and its trace holds no spawn and no call
  of the supervision loop. When a target command is given the error is the one of
  \<^verbatim>\<open>performChecks\<close> for that name (with no target command it is the error of C5), and
  the trace is the log line and what the checks logged. The rejection of gospy is a
  returned error, not a logged warning.
\<close>

theorem unsupported_spy_fails_before_spawn:
  assumes explicit: "SpyName (Exec cfg) \<noteq> ''auto''"
    and unsupported: "SpyName (Exec cfg) = ''gospy'' \<or> SpyName (Exec cfg) \<notin> set (spy_SupportedSpies h)"
  shows "(\<exists>err. snd (Cli (Some cfg) h args) = Some (Returns (Some err))) \<and>
         filter is_spawn (fst (Cli (Some cfg) h args)) = [] \<and>
         filter supervision_call (fst (Cli (Some cfg) h args)) = [] \<and>
         (args \<noteq> [] \<longrightarrow>
            snd (Cli (Some cfg) h args) =
              Some (Returns (Some (errorString
                (if SpyName (Exec cfg) = ''gospy'' then gospy_message h
                 else not_supported_message h (SpyName (Exec cfg)))))) \<and>
            fst (Cli (Some cfg) h args) =
              LogInfo (no_logging_hint h) # fst (performChecks h (SpyName (Exec cfg))))"
proof (cases "args = []")
  case True
  then show ?thesis by (simp add: Cli_def)
next
  case False
  note failed = performChecks_fails [OF unsupported]
  have run: "Cli (Some cfg) h args =
      (LogInfo (no_logging_hint h) # fst (performChecks h (SpyName (Exec cfg))),
       Some (Returns (Some (errorString
             (if SpyName (Exec cfg) = ''gospy'' then gospy_message h
              else not_supported_message h (SpyName (Exec cfg)))))))"
    using False explicit by (simp add: Cli_def Cli_with_spy_fails [OF failed])
  have quiet: "filter is_spawn (fst (performChecks h (SpyName (Exec cfg)))) = []"
      "filter supervision_call (fst (performChecks h (SpyName (Exec cfg)))) = []"
    by (auto simp: filter_empty_conv dest: performChecks_logs)
  show ?thesis by (simp add: run quiet)
qed

theorem unsupported_spy_fails_before_spawn_witness:
  "Cli (Some (exec_config ''gospy'')) (linux_host (Inr 100) target_dies) [''./server'']
     = ([LogInfo (no_logging_hint (linux_host (Inr 100) target_dies))],
        Some (Returns (Some (errorString (gospy_message (linux_host (Inr 100) target_dies)))))) \<and>
   Cli (Some (exec_config ''phpspy'')) (linux_host (Inr 100) target_dies) [''php'', ''index.php'']
     = ([LogInfo (no_logging_hint (linux_host (Inr 100) target_dies))],
        Some (Returns (Some (errorString (not_supported_message (linux_host (Inr 100) target_dies) ''phpspy'')))))"
proof -
  have a1: "[''./server''] \<noteq> []" and a2: "[''php'', ''index.php''] \<noteq> []" by simp_all
  have e1: "SpyName (Exec (exec_config ''gospy'')) \<noteq> ''auto''"
    and e2: "SpyName (Exec (exec_config ''phpspy'')) \<noteq> ''auto''"
    by (simp_all add: exec_config_def)
  have u1: "SpyName (Exec (exec_config ''gospy'')) = ''gospy'' \<or>
      SpyName (Exec (exec_config ''gospy'')) \<notin> set (spy_SupportedSpies (linux_host (Inr 100) target_dies))"
    by (simp add: exec_config_def)
  have u2: "SpyName (Exec (exec_config ''phpspy'')) = ''gospy'' \<or>
      SpyName (Exec (exec_config ''phpspy'')) \<notin> set (spy_SupportedSpies (linux_host (Inr 100) target_dies))"
    by (simp add: exec_config_def linux_host_def)
  have p1: "fst (performChecks (linux_host (Inr 100) target_dies) ''gospy'') = []"
    by (simp add: performChecks_def)
  have p2: "fst (performChecks (linux_host (Inr 100) target_dies) ''phpspy'') = []"
    by (simp add: performChecks_def linux_host_def)
  from unsupported_spy_fails_before_spawn [OF e1 u1, of "[''./server'']"]
    unsupported_spy_fails_before_spawn [OF e2 u2, of "[''php'', ''index.php'']"] a1 a2
  show ?thesis
    by (simp add: prod_eq_iff p1 p2 exec_config_def)
qed

lemma sublist_color_wrap: "sublist s (color_wrap h code s)"
proof (cases "color_NoColor h")
  case True
  then show ?thesis by (simp add: color_wrap_def)
next
  case False
  have "sublist s (([CHR 0x1B] @ ''['' @ code @ ''m'') @ s @ ([CHR 0x1B] @ ''[0m''))"
    by (rule sublist_appendI)
  with False show ?thesis by (simp add: color_wrap_def)
qed

lemma sublist_inside: "sublist s t \<Longrightarrow> sublist s (a @ t @ b)"
  by (meson sublist_appendI sublist_order.order_trans)

lemma message_has_command:
  "sublist suggested (no_auto_match_message h baseName suggested supportedSpies)"
proof -
  have "sublist suggested (color_YellowString h suggested)"
    by (simp add: color_YellowString_def sublist_color_wrap)
  then have "sublist suggested
     ((''could not automatically find a spy for program '' @ dquote @ baseName @ dquote
       @ ''. Pass spy name via '' @ color_YellowString h ''-spy-name''
       @ '' argument, for example: '' @ newline @ ''  '') @ color_YellowString h suggested
       @ (newline @ newline @ ''Available spies are: '' @ strings_Join supportedSpies '',''
       @ newline @ armMessage h @ newline
       @ ''If you believe this is a mistake, please submit an issue at ''
       @ color_BlueString h ''https://github.com/pyroscope-io/pyroscope/issues''))"
    by (rule sublist_inside)
  then show ?thesis by (simp add: no_auto_match_message_def)
qed

lemma message_has_list:
  "sublist (strings_Join supportedSpies '','') (no_auto_match_message h baseName suggested supportedSpies)"
proof -
  have "sublist (strings_Join supportedSpies '','')
     ((''could not automatically find a spy for program '' @ dquote @ baseName @ dquote
       @ ''. Pass spy name via '' @ color_YellowString h ''-spy-name''
       @ '' argument, for example: '' @ newline @ ''  '' @ color_YellowString h suggested
       @ newline @ newline @ ''Available spies are: '') @ strings_Join supportedSpies '',''
       @ (newline @ armMessage h @ newline
       @ ''If you believe this is a mistake, please submit an issue at ''
       @ color_BlueString h ''https://github.com/pyroscope-io/pyroscope/issues''))"
    by (rule sublist_appendI)
  then show ?thesis by (simp add: no_auto_match_message_def)
qed

text \<open>
  What holds of the failed auto-detection when the registry lists at least one spy able
  to attach: for a call with a target command, spy name "auto" and a basename of the
  target that the registry maps to no spy, \<^verbatim>\<open>Cli\<close> returns an error after the one call
  that resolves the name (nothing is spawned), and the message contains the
  comma-separated list of those spies and the command "pyroscope exec -spy-name S ARGS"
  with S the first spy of the list and ARGS the arguments joined by spaces.
\<close>

lemma no_auto_match_with_exec_spy:
  assumes args: "args \<noteq> []"
    and auto: "SpyName (Exec cfg) = ''auto''"
    and no_match: "spy_ResolveAutoName h (path_Base (args ! 0)) = []"
    and some_spy: "spy_SupportedExecSpies h \<noteq> []"
  shows "\<exists>msg. Cli (Some cfg) h args =
             ([ResolveAutoName (path_Base (args ! 0))], Some (Returns (Some (errorString msg)))) \<and>
           sublist (strings_Join (spy_SupportedExecSpies h) '','') msg \<and>
           sublist (''pyroscope exec -spy-name '' @ spy_SupportedExecSpies h ! 0 @ '' ''
                      @ strings_Join args '' '') msg"
proof -
  from some_spy obtain first_spy others where spies: "spy_SupportedExecSpies h = first_spy # others"
    by (cases "spy_SupportedExecSpies h") auto
  let ?msg = "no_auto_match_message h (path_Base (args ! 0)) (suggestedCommand first_spy args)
                (spy_SupportedExecSpies h)"
  have run: "Cli (Some cfg) h args =
      ([ResolveAutoName (path_Base (args ! 0))], Some (Returns (Some (errorString ?msg))))"
    using args auto no_match by (simp add: Cli_def Let_def spies)
  have cmd: "sublist (''pyroscope exec -spy-name '' @ spy_SupportedExecSpies h ! 0 @ '' ''
                      @ strings_Join args '' '') ?msg"
    using message_has_command [of "suggestedCommand first_spy args" h]
    by (simp add: suggestedCommand_def spies)
  show ?thesis
    using run cmd message_has_list by blast
qed

lemma no_auto_match_with_exec_spy_example:
  "Cli (Some (exec_config ''auto'')) (linux_host (Inr 100) target_dies) [''/usr/bin/node'', ''app.js'']
     = ([ResolveAutoName ''node''],
        Some (Returns (Some (errorString
          (no_auto_match_message (linux_host (Inr 100) target_dies) ''node''
             ''pyroscope exec -spy-name pyspy /usr/bin/node app.js'' [''pyspy'', ''rbspy''])))))
   \<and> sublist ''pyspy,rbspy''
        (no_auto_match_message (linux_host (Inr 100) target_dies) ''node''
           ''pyroscope exec -spy-name pyspy /usr/bin/node app.js'' [''pyspy'', ''rbspy''])
   \<and> sublist ''pyroscope exec -spy-name pyspy /usr/bin/node app.js''
        (no_auto_match_message (linux_host (Inr 100) target_dies) ''node''
           ''pyroscope exec -spy-name pyspy /usr/bin/node app.js'' [''pyspy'', ''rbspy''])"
proof -
  have args: "[''/usr/bin/node'', ''app.js''] \<noteq> []" by simp
  have auto: "SpyName (Exec (exec_config ''auto'')) = ''auto''" by (simp add: exec_config_def)
  have base: "path_Base ''/usr/bin/node'' = ''node''" by (simp add: path_Base_def)
  have no_match: "spy_ResolveAutoName (linux_host (Inr 100) target_dies) (path_Base ([''/usr/bin/node'', ''app.js''] ! 0)) = []"
    by (simp add: base linux_host_def)
  have some_spy: "spy_SupportedExecSpies (linux_host (Inr 100) target_dies) \<noteq> []" by (simp add: linux_host_def)
  have spies: "spy_SupportedExecSpies (linux_host (Inr 100) target_dies) = [''pyspy'', ''rbspy'']"
    by (simp add: linux_host_def)
  from no_auto_match_with_exec_spy [OF args auto no_match some_spy]
  obtain msg where
    run: "Cli (Some (exec_config ''auto'')) (linux_host (Inr 100) target_dies) [''/usr/bin/node'', ''app.js'']
           = ([ResolveAutoName ''node''], Some (Returns (Some (errorString msg))))"
    and l: "sublist ''pyspy,rbspy'' msg"
    and c: "sublist ''pyroscope exec -spy-name pyspy /usr/bin/node app.js'' msg"
    by (auto simp: base spies strings_Join_def)
  have "Cli (Some (exec_config ''auto'')) (linux_host (Inr 100) target_dies) [''/usr/bin/node'', ''app.js'']
     = ([ResolveAutoName ''node''],
        Some (Returns (Some (errorString
          (no_auto_match_message (linux_host (Inr 100) target_dies) ''node''
             ''pyroscope exec -spy-name pyspy /usr/bin/node app.js'' [''pyspy'', ''rbspy''])))))"
    by (simp add: Cli_def Let_def base exec_config_def spies suggestedCommand_def strings_Join_def)
       (simp add: linux_host_def)
  with run l c show ?thesis by simp
qed

text \<open>
  C7. The claim is for every call with spy name "auto" and a basename that
  auto-detection maps to no spy. At a registry that holds gospy alone the list of spies
  able to attach is empty: \<^verbatim>\<open>Cli\<close> resolves the name, then panics at
  \<^verbatim>\<open>supportedSpies[0]\<close> (line 37) while it builds the suggested command. It returns no
  error and no message.
\<close>

theorem no_auto_match_empty_registry_panics:
  "Cli (Some (exec_config ''auto'')) gospy_only_host [''/usr/bin/node'', ''app.js'']
     = ([ResolveAutoName ''node''], Some (Panics index_out_of_range))"
proof -
  have base: "path_Base ''/usr/bin/node'' = ''node''"
    by (simp add: path_Base_def)
  show ?thesis
    by (simp add: Cli_def Let_def base exec_config_def gospy_only_host_def)
qed

lemma loop_calls: "a \<in> set (fst (waitForProcessToExit_loop cmd ss)) \<Longrightarrow> supervision_call a"
  by (induction ss arbitrary: a)
     (auto split: option.splits select_case.splits if_splits prod.splits)

lemma wait_calls: "a \<in> set (fst (waitForProcessToExit cmd ss)) \<Longrightarrow> supervision_call a"
  by (auto simp: wait_unfold dest: loop_calls)

lemma loop_no_panic:
  "Process cmd = Some p \<Longrightarrow> snd (waitForProcessToExit_loop cmd ss) = Some (r, rest) \<Longrightarrow> r = Returns ()"
  by (induction ss)
     (auto split: option.splits select_case.splits if_splits prod.splits)

lemma wait_no_panic:
  "Process cmd = Some p \<Longrightarrow> snd (waitForProcessToExit cmd ss) = Some (r, rest) \<Longrightarrow> r = Returns ()"
  by (simp add: wait_unfold loop_no_panic)

lemma wait_ended_iff:
  "Process cmd = Some p \<Longrightarrow>
   (snd (waitForProcessToExit cmd ss) \<noteq> None) = (\<exists>s\<in>set ss. terminal s)"
  using loop_waiting_iff [of cmd p ss] by (simp add: wait_unfold)

lemma Cli_with_spy_started:
  assumes checks: "performChecks h spyName = (checked, None)"
    and start: "cmd_Start h = Inr child"
  shows "Cli_with_spy cfg h args spyName =
     ((LogInfo (no_logging_hint h) # checked @ [SignalIgnore_SIGCHLD, CmdStart (Cli_command args)])
        @ [RemoteNew \<lparr>UpstreamAddress = ServerAddress (Exec cfg),
                      RemoteUpstreamThreads = UpstreamThreads (Exec cfg),
                      RemoteUpstreamRequestTimeout = UpstreamRequestTimeout (Exec cfg)\<rparr>,
           Sleep (5 * time_Second),
           NewSession (ApplicationName (Exec cfg)) spyName 100 child (DetectSubprocesses (Exec cfg)),
           SessionStart]
        @ fst (waitForProcessToExit ((Cli_command args)\<lparr>Process := Some \<lparr>Pid = child\<rparr>\<rparr>) (select_states h))
        @ (if snd (waitForProcessToExit ((Cli_command args)\<lparr>Process := Some \<lparr>Pid = child\<rparr>\<rparr>) (select_states h)) = None
           then [] else [SessionStop, UpstreamStop]),
      map_option (\<lambda>e. Returns None)
        (snd (waitForProcessToExit ((Cli_command args)\<lparr>Process := Some \<lparr>Pid = child\<rparr>\<rparr>) (select_states h))))"
proof (cases "waitForProcessToExit ((Cli_command args)\<lparr>Process := Some \<lparr>Pid = child\<rparr>\<rparr>) (select_states h)")
  case (Pair watched ended)
  show ?thesis
  proof (cases ended)
    case None
    with Pair checks start show ?thesis
      by (simp add: Cli_with_spy_def Let_def)
  next
    case (Some e)
    obtain r rest where e: "e = (r, rest)" by (cases e)
    have "Process ((Cli_command args)\<lparr>Process := Some \<lparr>Pid = child\<rparr>\<rparr>) = Some \<lparr>Pid = child\<rparr>"
      by simp
    from wait_no_panic [OF this, of "select_states h" r rest] Pair Some e
    have "r = Returns ()" by simp
    with Pair Some e checks start show ?thesis
      by (simp add: Cli_with_spy_def Let_def run_deferred_def)
  qed
qed

lemma Cli_with_spy_stopped_early:
  assumes "a \<in> set (fst (Cli_with_spy cfg h args spyName))"
    and "snd (performChecks h spyName) \<noteq> None \<or> (\<exists>err. cmd_Start h = Inl err)"
  shows "a = LogInfo (no_logging_hint h) \<or> a = LogError macos_sudo_message \<or>
         a = SignalIgnore_SIGCHLD \<or> a = CmdStart (Cli_command args)"
  using assms performChecks_logs [of a h spyName]
  by (cases "performChecks h spyName")
     (auto simp: Cli_with_spy_def Let_def split: option.splits sum.splits)

lemma Cli_reaches_spy:
  assumes "a \<in> set (fst (Cli cfg_ptr h args))" and "\<forall>b. a \<noteq> ResolveAutoName b"
  shows "\<exists>cfg spyName before.
           cfg_ptr = Some cfg \<and> args \<noteq> [] \<and>
           Cli cfg_ptr h args =
             (before @ fst (Cli_with_spy cfg h args spyName), snd (Cli_with_spy cfg h args spyName)) \<and>
           (before = [] \<or> before = [ResolveAutoName (path_Base (args ! 0))]) \<and>
           a \<in> set (fst (Cli_with_spy cfg h args spyName))"
proof (cases "args = []")
  case True
  with assms show ?thesis by (simp add: Cli_def)
next
  case False
  show ?thesis
  proof (cases cfg_ptr)
    case None
    with False assms show ?thesis by (simp add: Cli_def)
  next
    case (Some cfg)
    show ?thesis
    proof (cases "SpyName (Exec cfg) = ''auto''")
      case explicit: False
      with Some False assms show ?thesis
        by (intro exI [of _ cfg] exI [of _ "SpyName (Exec cfg)"] exI [of _ "[]"])
           (simp add: Cli_def)
    next
      case auto: True
      show ?thesis
      proof (cases "spy_ResolveAutoName h (path_Base (args ! 0)) = []")
        case True
        with auto Some False assms show ?thesis
          by (auto simp: Cli_def Let_def split: list.splits)
      next
        case resolved: False
        with auto Some False assms show ?thesis
          by (intro exI [of _ cfg] exI [of _ "spy_ResolveAutoName h (path_Base (args ! 0))"]
                exI [of _ "[ResolveAutoName (path_Base (args ! 0))]"])
             (auto simp: Cli_def Let_def split_def)
      qed
    qed
  qed
qed

lemma Cli_with_spy_spawned:
  assumes "CmdStart cmd \<in> set (fst (Cli_with_spy cfg h args spyName))"
  shows "cmd = Cli_command args \<and> snd (performChecks h spyName) = None"
proof (cases "performChecks h spyName")
  case (Pair checked failed)
  show ?thesis
  proof (cases failed)
    case (Some err)
    with Pair assms performChecks_logs [of "CmdStart cmd" h spyName] show ?thesis
      by (auto simp: Cli_with_spy_def)
  next
    case None
    show ?thesis
    proof (cases "cmd_Start h")
      case (Inl err)
      with None Pair assms performChecks_logs [of "CmdStart cmd" h spyName] show ?thesis
        by (auto simp: Cli_with_spy_def Let_def)
    next
      case (Inr child)
      from Pair None have checks: "performChecks h spyName = (checked, None)" by simp
      from assms performChecks_logs [of "CmdStart cmd" h spyName] checks
        wait_calls [of "CmdStart cmd"]
      show ?thesis
        by (auto simp: Cli_with_spy_started [OF checks Inr] split: if_splits)
    qed
  qed
qed

lemma args_head_rest: "args \<noteq> [] \<Longrightarrow> args ! 0 # drop (Suc 0) args = args"
  by (cases args) simp_all

text \<open>
  C8. Whenever \<^verbatim>\<open>Cli\<close> starts a command: the operating system puts the child in a
  process group of its own, whose id is the child's pid, whatever the parent's group is;
  the three standard streams of the command are the supervisor's own files; the command
  is the argument vector as given; and if the start fails \<^verbatim>\<open>Cli\<close> returns the error of
  the start as it is.
\<close>

theorem spawn_own_group_inherited_streams:
  assumes spawned: "CmdStart cmd \<in> set (fst (Cli cfg_ptr h args))"
  shows "child_pgid cmd child parent_group = child \<and>
         Stdin cmd = Some os_Stdin \<and> Stdout cmd = Some os_Stdout \<and> Stderr cmd = Some os_Stderr \<and>
         Args cmd = args \<and>
         (\<forall>err. cmd_Start h = Inl err \<longrightarrow> snd (Cli cfg_ptr h args) = Some (Returns (Some err)))"
proof -
  from Cli_reaches_spy [OF spawned] obtain cfg spyName before where
    args: "args \<noteq> []"
    and run: "Cli cfg_ptr h args =
             (before @ fst (Cli_with_spy cfg h args spyName), snd (Cli_with_spy cfg h args spyName))"
    and inner: "CmdStart cmd \<in> set (fst (Cli_with_spy cfg h args spyName))"
    by auto
  from Cli_with_spy_spawned [OF inner]
  have cmd: "cmd = Cli_command args" and checks: "snd (performChecks h spyName) = None"
    by simp_all
  have failed: "snd (Cli cfg_ptr h args) = Some (Returns (Some err))" if "cmd_Start h = Inl err" for err
    using that checks
    by (cases "performChecks h spyName") (simp add: run Cli_with_spy_def Let_def)
  show ?thesis
    using failed
    by (simp add: cmd Cli_command_def exec_Command_def child_pgid_def args_head_rest [OF args])
qed

theorem spawn_own_group_inherited_streams_witness:
  "CmdStart (Cli_command [''python'', ''server.py''])
     \<in> set (fst (Cli (Some (exec_config ''auto''))
                  (linux_host (Inl (osError ''fork/exec: resource temporarily unavailable'')) target_dies)
                  [''python'', ''server.py''])) \<and>
   child_pgid (Cli_command [''python'', ''server.py'']) 100 7 = 100 \<and>
   Stdin (Cli_command [''python'', ''server.py'']) = Some os_Stdin \<and>
   Stdout (Cli_command [''python'', ''server.py'']) = Some os_Stdout \<and>
   Stderr (Cli_command [''python'', ''server.py'']) = Some os_Stderr \<and>
   Args (Cli_command [''python'', ''server.py'']) = [''python'', ''server.py''] \<and>
   snd (Cli (Some (exec_config ''auto''))
          (linux_host (Inl (osError ''fork/exec: resource temporarily unavailable'')) target_dies)
          [''python'', ''server.py''])
     = Some (Returns (Some (osError ''fork/exec: resource temporarily unavailable'')))"
proof -
  have base: "path_Base ''python'' = ''python''" by (simp add: path_Base_def)
  have resolved: "spy_ResolveAutoName (linux_host (Inl (osError ''fork/exec: resource temporarily unavailable'')) target_dies) ''python'' = ''pyspy''"
    by (simp add: linux_host_def)
  have checks: "performChecks (linux_host (Inl (osError ''fork/exec: resource temporarily unavailable'')) target_dies) ''pyspy'' = ([], None)"
    by (simp add: performChecks_def linux_host_def)
  have run: "Cli (Some (exec_config ''auto''))
                  (linux_host (Inl (osError ''fork/exec: resource temporarily unavailable'')) target_dies)
                  [''python'', ''server.py'']
     = ([ResolveAutoName ''python'',
         LogInfo (no_logging_hint (linux_host (Inl (osError ''fork/exec: resource temporarily unavailable'')) target_dies)),
         SignalIgnore_SIGCHLD, CmdStart (Cli_command [''python'', ''server.py''])],
        Some (Returns (Some (osError ''fork/exec: resource temporarily unavailable''))))"
    by (simp add: Cli_def Let_def base exec_config_def Cli_with_spy_def checks resolved)
       (simp add: linux_host_def)
  have spawned: "CmdStart (Cli_command [''python'', ''server.py''])
     \<in> set (fst (Cli (Some (exec_config ''auto''))
                  (linux_host (Inl (osError ''fork/exec: resource temporarily unavailable'')) target_dies)
                  [''python'', ''server.py'']))"
    by (simp add: run)
  have start: "cmd_Start (linux_host (Inl (osError ''fork/exec: resource temporarily unavailable'')) target_dies)
      = Inl (osError ''fork/exec: resource temporarily unavailable'')"
    by (simp add: linux_host_def)
  from spawn_own_group_inherited_streams [OF spawned, of 100 7] start spawned
  show ?thesis by simp
qed

lemma Cli_supervised:
  assumes reached: "a \<in> set (fst (Cli cfg_ptr h args))"
    and kind: "session_created a \<or> a = SessionStart \<or> supervision_call a"
  shows "\<exists>before (cfg::config_Config) spyName child.
           Cli cfg_ptr h args =
             (before
                @ [NewSession (ApplicationName (Exec cfg)) spyName 100 child (DetectSubprocesses (Exec cfg)),
                   SessionStart]
                @ fst (waitForProcessToExit ((Cli_command args)\<lparr>Process := Some \<lparr>Pid = child\<rparr>\<rparr>) (select_states h))
                @ (if snd (waitForProcessToExit ((Cli_command args)\<lparr>Process := Some \<lparr>Pid = child\<rparr>\<rparr>) (select_states h)) = None
                   then [] else [SessionStop, UpstreamStop]),
              map_option (\<lambda>e. Returns None)
                (snd (waitForProcessToExit ((Cli_command args)\<lparr>Process := Some \<lparr>Pid = child\<rparr>\<rparr>) (select_states h)))) \<and>
           (\<forall>b\<in>set before. \<not> session_created b \<and> b \<noteq> SessionStart \<and> b \<noteq> SessionStop \<and>
                             b \<noteq> UpstreamStop \<and> \<not> supervision_call b)"
proof -
  have "a \<noteq> ResolveAutoName b" for b
    using kind by (cases a) auto
  then have "\<forall>b. a \<noteq> ResolveAutoName b" by blast
  from Cli_reaches_spy [OF reached this] obtain cfg spyName pre where
    run: "Cli cfg_ptr h args =
             (pre @ fst (Cli_with_spy cfg h args spyName), snd (Cli_with_spy cfg h args spyName))"
    and pre: "pre = [] \<or> pre = [ResolveAutoName (path_Base (args ! 0))]"
    and inner: "a \<in> set (fst (Cli_with_spy cfg h args spyName))"
    by auto
  have not_early: "\<not> (snd (performChecks h spyName) \<noteq> None \<or> (\<exists>err. cmd_Start h = Inl err))"
  proof
    assume "snd (performChecks h spyName) \<noteq> None \<or> (\<exists>err. cmd_Start h = Inl err)"
    from Cli_with_spy_stopped_early [OF inner this]
    have "a = LogInfo (no_logging_hint h) \<or> a = LogError macos_sudo_message \<or>
         a = SignalIgnore_SIGCHLD \<or> a = CmdStart (Cli_command args)" .
    with kind show False by (elim disjE) simp_all
  qed
  then obtain checked child where checks: "performChecks h spyName = (checked, None)"
    and start: "cmd_Start h = Inr child"
    by (cases "performChecks h spyName"; cases "cmd_Start h") auto
  let ?before = "pre @ (LogInfo (no_logging_hint h) # checked @ [SignalIgnore_SIGCHLD, CmdStart (Cli_command args)])
        @ [RemoteNew \<lparr>UpstreamAddress = ServerAddress (Exec cfg),
                      RemoteUpstreamThreads = UpstreamThreads (Exec cfg),
                      RemoteUpstreamRequestTimeout = UpstreamRequestTimeout (Exec cfg)\<rparr>,
           Sleep (5 * time_Second)]"
  have logs: "b = LogError macos_sudo_message" if "b \<in> set checked" for b
    using performChecks_logs [of b h spyName] that checks by simp
  have quiet: "\<forall>b\<in>set ?before. \<not> session_created b \<and> b \<noteq> SessionStart \<and> b \<noteq> SessionStop \<and>
                             b \<noteq> UpstreamStop \<and> \<not> supervision_call b"
  proof
    fix b assume "b \<in> set ?before"
    with pre have "b = ResolveAutoName (path_Base (args ! 0)) \<or> b = LogInfo (no_logging_hint h) \<or>
        b \<in> set checked \<or> b = SignalIgnore_SIGCHLD \<or> b = CmdStart (Cli_command args) \<or>
        b = RemoteNew \<lparr>UpstreamAddress = ServerAddress (Exec cfg),
                      RemoteUpstreamThreads = UpstreamThreads (Exec cfg),
                      RemoteUpstreamRequestTimeout = UpstreamRequestTimeout (Exec cfg)\<rparr> \<or>
        b = Sleep (5 * time_Second)"
      by auto
    then show "\<not> session_created b \<and> b \<noteq> SessionStart \<and> b \<noteq> SessionStop \<and>
                             b \<noteq> UpstreamStop \<and> \<not> supervision_call b"
      by (elim disjE) (auto dest: logs)
  qed
  have run': "Cli cfg_ptr h args =
             (?before
                @ [NewSession (ApplicationName (Exec cfg)) spyName 100 child (DetectSubprocesses (Exec cfg)),
                   SessionStart]
                @ fst (waitForProcessToExit ((Cli_command args)\<lparr>Process := Some \<lparr>Pid = child\<rparr>\<rparr>) (select_states h))
                @ (if snd (waitForProcessToExit ((Cli_command args)\<lparr>Process := Some \<lparr>Pid = child\<rparr>\<rparr>) (select_states h)) = None
                   then [] else [SessionStop, UpstreamStop]),
              map_option (\<lambda>e. Returns None)
                (snd (waitForProcessToExit ((Cli_command args)\<lparr>Process := Some \<lparr>Pid = child\<rparr>\<rparr>) (select_states h))))"
    by (simp add: run Cli_with_spy_started [OF checks start])
  from run' quiet
  have "Cli cfg_ptr h args =
             (?before
                @ [NewSession (ApplicationName (Exec cfg)) spyName 100 child (DetectSubprocesses (Exec cfg)),
                   SessionStart]
                @ fst (waitForProcessToExit ((Cli_command args)\<lparr>Process := Some \<lparr>Pid = child\<rparr>\<rparr>) (select_states h))
                @ (if snd (waitForProcessToExit ((Cli_command args)\<lparr>Process := Some \<lparr>Pid = child\<rparr>\<rparr>) (select_states h)) = None
                   then [] else [SessionStop, UpstreamStop]),
              map_option (\<lambda>e. Returns None)
                (snd (waitForProcessToExit ((Cli_command args)\<lparr>Process := Some \<lparr>Pid = child\<rparr>\<rparr>) (select_states h)))) \<and>
           (\<forall>b\<in>set ?before. \<not> session_created b \<and> b \<noteq> SessionStart \<and> b \<noteq> SessionStop \<and>
                             b \<noteq> UpstreamStop \<and> \<not> supervision_call b)"
    by (rule conjI)
  then show ?thesis by (intro exI)
qed

lemma count_list_absent: "(\<And>b. b \<in> set xs \<Longrightarrow> b \<noteq> a) \<Longrightarrow> count_list xs a = 0"
  by (induction xs) auto

lemma count_list_wait:
  "\<not> supervision_call a \<Longrightarrow> count_list (fst (waitForProcessToExit cmd ss)) a = 0"
  by (rule count_list_absent) (auto dest: wait_calls)

text \<open>
  C9. Whenever \<^verbatim>\<open>Cli\<close> has made the profiling session: the trace is some calls that
  are neither a start, a stop nor a call of the supervision loop, then the making of the
  session, then \<^verbatim>\<open>Start\<close>, then the calls of \<^verbatim>\<open>waitForProcessToExit\<close>, then, once the
  loop has returned, the session's \<^verbatim>\<open>Stop\<close> and the upstream client's \<^verbatim>\<open>Stop\<close>. So
  \<^verbatim>\<open>Start\<close> is called once and before the loop is entered, and after the loop has
  returned each \<^verbatim>\<open>Stop\<close> is called exactly once; the loop returns exactly when a state
  is terminal, whichever of the two kinds it is.
\<close>

theorem session_started_before_loop_stopped_once_after:
  assumes made: "a \<in> set (fst (Cli cfg_ptr h args))" and session: "session_created a"
  shows "(\<exists>before started.
            fst (Cli cfg_ptr h args) =
              before @ [a, SessionStart] @ fst (waitForProcessToExit started (select_states h))
                @ (if snd (Cli cfg_ptr h args) = None then [] else [SessionStop, UpstreamStop]) \<and>
            snd (Cli cfg_ptr h args) =
              map_option (\<lambda>e. Returns None) (snd (waitForProcessToExit started (select_states h))) \<and>
            (\<forall>b\<in>set before. b \<noteq> SessionStart \<and> b \<noteq> SessionStop \<and> b \<noteq> UpstreamStop \<and>
                              \<not> supervision_call b)) \<and>
         count_list (fst (Cli cfg_ptr h args)) SessionStart = 1 \<and>
         (snd (Cli cfg_ptr h args) \<noteq> None \<longrightarrow>
            count_list (fst (Cli cfg_ptr h args)) SessionStop = 1 \<and>
            count_list (fst (Cli cfg_ptr h args)) UpstreamStop = 1) \<and>
         ((snd (Cli cfg_ptr h args) \<noteq> None) = (\<exists>s\<in>set (select_states h). terminal s))"
proof -
  have kind: "session_created a \<or> a = SessionStart \<or> supervision_call a"
    using session by simp
  from Cli_supervised [OF made kind]
  obtain before and cfg :: config_Config and spyName and child where
    run: "Cli cfg_ptr h args =
             (before
                @ [NewSession (ApplicationName (Exec cfg)) spyName 100 child (DetectSubprocesses (Exec cfg)),
                   SessionStart]
                @ fst (waitForProcessToExit ((Cli_command args)\<lparr>Process := Some \<lparr>Pid = child\<rparr>\<rparr>) (select_states h))
                @ (if snd (waitForProcessToExit ((Cli_command args)\<lparr>Process := Some \<lparr>Pid = child\<rparr>\<rparr>) (select_states h)) = None
                   then [] else [SessionStop, UpstreamStop]),
              map_option (\<lambda>e. Returns None)
                (snd (waitForProcessToExit ((Cli_command args)\<lparr>Process := Some \<lparr>Pid = child\<rparr>\<rparr>) (select_states h))))"
    and quiet: "\<forall>b\<in>set before. \<not> session_created b \<and> b \<noteq> SessionStart \<and> b \<noteq> SessionStop \<and>
                             b \<noteq> UpstreamStop \<and> \<not> supervision_call b"
    by (elim exE conjE) (rule that)
  let ?started = "(Cli_command args)\<lparr>Process := Some \<lparr>Pid = child\<rparr>\<rparr>"
  let ?W = "waitForProcessToExit ?started (select_states h)"
  have started: "Process ?started = Some \<lparr>Pid = child\<rparr>" by simp
  have ended: "(snd (Cli cfg_ptr h args) \<noteq> None) = (snd ?W \<noteq> None)"
    by (simp add: run)
  have a: "a = NewSession (ApplicationName (Exec cfg)) spyName 100 child (DetectSubprocesses (Exec cfg))"
  proof -
    from made have "a \<in> set before \<or>
        a = NewSession (ApplicationName (Exec cfg)) spyName 100 child (DetectSubprocesses (Exec cfg)) \<or>
        a = SessionStart \<or> a \<in> set (fst ?W) \<or> a = SessionStop \<or> a = UpstreamStop"
      by (auto simp: run split: if_splits)
    moreover have "a \<notin> set before" using session quiet by blast
    moreover have "a \<noteq> SessionStart" "a \<noteq> SessionStop" "a \<noteq> UpstreamStop"
      using session by auto
    moreover have "a \<notin> set (fst ?W)"
    proof
      assume "a \<in> set (fst ?W)"
      then have "supervision_call a" by (rule wait_calls)
      with session show False by (cases a) simp_all
    qed
    ultimately show ?thesis by blast
  qed
  have c_before: "count_list before SessionStart = 0" "count_list before SessionStop = 0"
      "count_list before UpstreamStop = 0"
    using quiet by (simp_all add: count_list_0_iff) blast+
  have c_wait: "count_list (fst ?W) SessionStart = 0" "count_list (fst ?W) SessionStop = 0"
      "count_list (fst ?W) UpstreamStop = 0"
    by (simp_all add: count_list_wait)
  have shape: "fst (Cli cfg_ptr h args) =
              before @ [a, SessionStart] @ fst ?W
                @ (if snd (Cli cfg_ptr h args) = None then [] else [SessionStop, UpstreamStop])"
    by (simp add: run a)
  have result: "snd (Cli cfg_ptr h args) = map_option (\<lambda>e. Returns None) (snd ?W)"
    by (simp add: run)
  have quiet': "\<forall>b\<in>set before. b \<noteq> SessionStart \<and> b \<noteq> SessionStop \<and> b \<noteq> UpstreamStop \<and>
                              \<not> supervision_call b"
    using quiet by blast
  from shape result quiet'
  have first: "\<exists>before started.
            fst (Cli cfg_ptr h args) =
              before @ [a, SessionStart] @ fst (waitForProcessToExit started (select_states h))
                @ (if snd (Cli cfg_ptr h args) = None then [] else [SessionStop, UpstreamStop]) \<and>
            snd (Cli cfg_ptr h args) =
              map_option (\<lambda>e. Returns None) (snd (waitForProcessToExit started (select_states h))) \<and>
            (\<forall>b\<in>set before. b \<noteq> SessionStart \<and> b \<noteq> SessionStop \<and> b \<noteq> UpstreamStop \<and>
                              \<not> supervision_call b)"
    by (intro exI conjI)
  have starts: "count_list (fst (Cli cfg_ptr h args)) SessionStart = 1"
    by (simp add: run c_before c_wait)
  have stops: "count_list (fst (Cli cfg_ptr h args)) SessionStop = 1 \<and>
            count_list (fst (Cli cfg_ptr h args)) UpstreamStop = 1"
    if "snd (Cli cfg_ptr h args) \<noteq> None"
    using that by (simp add: run c_before c_wait)
  have iff: "(snd (Cli cfg_ptr h args) \<noteq> None) = (\<exists>s\<in>set (select_states h). terminal s)"
    by (simp only: ended wait_ended_iff [OF started])
  from first starts stops iff show ?thesis by (intro conjI impI) simp_all
qed

text \<open>
  C10. Whenever \<^verbatim>\<open>Cli\<close> has reached the supervision loop, its result is \<^verbatim>\<open>nil\<close> as soon
  as a terminal state is met, and nothing before: the same value after the target was
  seen dead and after it was killed on a shutdown request.
\<close>

theorem Cli_returns_nil_on_both_paths:
  assumes reached: "a \<in> set (fst (Cli cfg_ptr h args))" and loop: "supervision_call a"
  shows "snd (Cli cfg_ptr h args) =
           (if \<exists>s\<in>set (select_states h). terminal s then Some (Returns None) else None)"
proof -
  have kind: "session_created a \<or> a = SessionStart \<or> supervision_call a"
    using loop by simp
  from Cli_supervised [OF reached kind]
  obtain before and cfg :: config_Config and spyName and child where
    run: "Cli cfg_ptr h args =
             (before
                @ [NewSession (ApplicationName (Exec cfg)) spyName 100 child (DetectSubprocesses (Exec cfg)),
                   SessionStart]
                @ fst (waitForProcessToExit ((Cli_command args)\<lparr>Process := Some \<lparr>Pid = child\<rparr>\<rparr>) (select_states h))
                @ (if snd (waitForProcessToExit ((Cli_command args)\<lparr>Process := Some \<lparr>Pid = child\<rparr>\<rparr>) (select_states h)) = None
                   then [] else [SessionStop, UpstreamStop]),
              map_option (\<lambda>e. Returns None)
                (snd (waitForProcessToExit ((Cli_command args)\<lparr>Process := Some \<lparr>Pid = child\<rparr>\<rparr>) (select_states h))))"
    by (elim exE conjE) (rule that)
  have started: "Process ((Cli_command args)\<lparr>Process := Some \<lparr>Pid = child\<rparr>\<rparr>) = Some \<lparr>Pid = child\<rparr>"
    by simp
  from wait_ended_iff [OF started, of "select_states h"]
  show ?thesis
    by (cases "snd (waitForProcessToExit ((Cli_command args)\<lparr>Process := Some \<lparr>Pid = child\<rparr>\<rparr>) (select_states h))")
       (simp_all add: run)
qed

lemma run_target_dies:
  "Cli (Some (exec_config ''pyspy'')) (linux_host (Inr 100) target_dies) [''python'', ''server.py'']
     = ([LogInfo (no_logging_hint (linux_host (Inr 100) target_dies)),
         SignalIgnore_SIGCHLD,
         CmdStart (Cli_command [''python'', ''server.py'']),
         RemoteNew \<lparr>UpstreamAddress = ''http://localhost:4040'', RemoteUpstreamThreads = 4,
                    RemoteUpstreamRequestTimeout = 10 * time_Second\<rparr>,
         Sleep (5 * time_Second),
         NewSession ''app'' ''pyspy'' 100 100 False,
         SessionStart,
         AtexitRegister, NewTicker time_Second,
         Recv recv_tC, FindProcess 100 (Some (UnixProcess 100), None),
         Recv recv_tC, FindProcess 100 (None, None),
         SessionStop, UpstreamStop],
        Some (Returns None))"
proof -
  have checks: "performChecks (linux_host (Inr 100) target_dies) ''pyspy'' = ([], None)"
    by (simp add: performChecks_def linux_host_def)
  have start: "cmd_Start (linux_host (Inr 100) target_dies) = Inr 100"
    and states: "select_states (linux_host (Inr 100) target_dies) = target_dies"
    by (simp_all add: linux_host_def)
  have loop: "waitForProcessToExit ((Cli_command [''python'', ''server.py''])\<lparr>Process := Some \<lparr>Pid = 100\<rparr>\<rparr>) target_dies
     = ([AtexitRegister, NewTicker time_Second,
         Recv recv_tC, FindProcess 100 (Some (UnixProcess 100), None),
         Recv recv_tC, FindProcess 100 (None, None)], Some (Returns (), []))"
    by (simp add: waitForProcessToExit_def target_dies_def go_select_def)
  show ?thesis
    by (simp add: Cli_def exec_config_def Cli_with_spy_def checks start states loop run_deferred_def)
qed

lemma run_shutdown_requested:
  "Cli (Some (exec_config ''pyspy'')) (linux_host (Inr 100) shutdown_requested) [''python'', ''server.py'']
     = ([LogInfo (no_logging_hint (linux_host (Inr 100) shutdown_requested)),
         SignalIgnore_SIGCHLD,
         CmdStart (Cli_command [''python'', ''server.py'']),
         RemoteNew \<lparr>UpstreamAddress = ''http://localhost:4040'', RemoteUpstreamThreads = 4,
                    RemoteUpstreamRequestTimeout = 10 * time_Second\<rparr>,
         Sleep (5 * time_Second),
         NewSession ''app'' ''pyspy'' 100 100 False,
         SessionStart,
         AtexitRegister, NewTicker time_Second,
         Recv recv_tC, FindProcess 100 (Some (UnixProcess 100), None),
         Recv recv_sigc, ProcessKill 100,
         SessionStop, UpstreamStop],
        Some (Returns None))"
proof -
  have checks: "performChecks (linux_host (Inr 100) shutdown_requested) ''pyspy'' = ([], None)"
    by (simp add: performChecks_def linux_host_def)
  have start: "cmd_Start (linux_host (Inr 100) shutdown_requested) = Inr 100"
    and states: "select_states (linux_host (Inr 100) shutdown_requested) = shutdown_requested"
    by (simp_all add: linux_host_def)
  have loop: "waitForProcessToExit ((Cli_command [''python'', ''server.py''])\<lparr>Process := Some \<lparr>Pid = 100\<rparr>\<rparr>) shutdown_requested
     = ([AtexitRegister, NewTicker time_Second,
         Recv recv_tC, FindProcess 100 (Some (UnixProcess 100), None),
         Recv recv_sigc, ProcessKill 100], Some (Returns (), []))"
    by (simp add: waitForProcessToExit_def shutdown_requested_def go_select_def)
  show ?thesis
    by (simp add: Cli_def exec_config_def Cli_with_spy_def checks start states loop run_deferred_def)
qed

theorem session_started_before_loop_stopped_once_after_witness:
  "count_list (fst (Cli (Some (exec_config ''pyspy'')) (linux_host (Inr 100) target_dies) [''python'', ''server.py''])) SessionStart = 1 \<and>
   count_list (fst (Cli (Some (exec_config ''pyspy'')) (linux_host (Inr 100) target_dies) [''python'', ''server.py''])) SessionStop = 1 \<and>
   count_list (fst (Cli (Some (exec_config ''pyspy'')) (linux_host (Inr 100) target_dies) [''python'', ''server.py''])) UpstreamStop = 1 \<and>
   count_list (fst (Cli (Some (exec_config ''pyspy'')) (linux_host (Inr 100) shutdown_requested) [''python'', ''server.py''])) SessionStart = 1 \<and>
   count_list (fst (Cli (Some (exec_config ''pyspy'')) (linux_host (Inr 100) shutdown_requested) [''python'', ''server.py''])) SessionStop = 1 \<and>
   count_list (fst (Cli (Some (exec_config ''pyspy'')) (linux_host (Inr 100) shutdown_requested) [''python'', ''server.py''])) UpstreamStop = 1"
proof -
  have session: "session_created (NewSession ''app'' ''pyspy'' 100 100 False)" by simp
  have made1: "NewSession ''app'' ''pyspy'' 100 100 False
      \<in> set (fst (Cli (Some (exec_config ''pyspy'')) (linux_host (Inr 100) target_dies) [''python'', ''server.py'']))"
    by (simp add: run_target_dies)
  have made2: "NewSession ''app'' ''pyspy'' 100 100 False
      \<in> set (fst (Cli (Some (exec_config ''pyspy'')) (linux_host (Inr 100) shutdown_requested) [''python'', ''server.py'']))"
    by (simp add: run_shutdown_requested)
  have ended1: "snd (Cli (Some (exec_config ''pyspy'')) (linux_host (Inr 100) target_dies) [''python'', ''server.py'']) \<noteq> None"
    by (simp add: run_target_dies)
  have ended2: "snd (Cli (Some (exec_config ''pyspy'')) (linux_host (Inr 100) shutdown_requested) [''python'', ''server.py'']) \<noteq> None"
    by (simp add: run_shutdown_requested)
  from session_started_before_loop_stopped_once_after [OF made1 session] ended1
    session_started_before_loop_stopped_once_after [OF made2 session] ended2
  show ?thesis by blast
qed

theorem Cli_returns_nil_on_both_paths_witness:
  "snd (Cli (Some (exec_config ''pyspy'')) (linux_host (Inr 100) target_dies) [''python'', ''server.py''])
     = Some (Returns None) \<and>
   snd (Cli (Some (exec_config ''pyspy'')) (linux_host (Inr 100) shutdown_requested) [''python'', ''server.py''])
     = Some (Returns None)"
proof -
  have loop: "supervision_call AtexitRegister" by simp
  have reached1: "AtexitRegister
      \<in> set (fst (Cli (Some (exec_config ''pyspy'')) (linux_host (Inr 100) target_dies) [''python'', ''server.py'']))"
    by (simp add: run_target_dies)
  have reached2: "AtexitRegister
      \<in> set (fst (Cli (Some (exec_config ''pyspy'')) (linux_host (Inr 100) shutdown_requested) [''python'', ''server.py'']))"
    by (simp add: run_shutdown_requested)
  have t1: "\<exists>s\<in>set (select_states (linux_host (Inr 100) target_dies)). terminal s"
    by (simp add: linux_host_def target_dies_def terminal_def observed_dead_def shutdown_received_def go_select_def)
  have t2: "\<exists>s\<in>set (select_states (linux_host (Inr 100) shutdown_requested)). terminal s"
    by (simp add: linux_host_def shutdown_requested_def terminal_def observed_dead_def shutdown_received_def go_select_def)
  from Cli_returns_nil_on_both_paths [OF reached1 loop] t1
    Cli_returns_nil_on_both_paths [OF reached2 loop] t2
  show ?thesis by simp
qed

end
